theory Spec2Isabelle
  imports Complex_Main "HOL-Library.Sublist"
begin

section \<open>The fetched document\<close>

text \<open>
  \<^verbatim>\<open>fetch_data\<close> returns what \<^verbatim>\<open>json.loads\<close> builds: \<^verbatim>\<open>None\<close>, booleans, integers
  (unbounded), floats, strings, lists and dicts with string keys. A finite float is
  represented by its exact rational value (comparison of Python numbers is exact, so
  nothing is lost for \<^verbatim>\<open>>\<close> and \<^verbatim>\<open>>=\<close>); the non-finite floats \<^verbatim>\<open>NaN\<close> and \<^verbatim>\<open>Infinity\<close>,
  which \<^verbatim>\<open>json.loads\<close> accepts beyond RFC 8259, and the sign of zero are outside the model.
  A Python \<^verbatim>\<open>str\<close> is represented by its UTF-8 bytes. A dict is an association list in
  insertion order; a lookup takes the first binding of a key.
\<close>

datatype json =
    JNull
  | JBool bool
  | JInt int
  | JFloat rat
  | JStr string
  | JList "json list"
  | JDict "(string \<times> json) list"

type_synonym pydict = "(string \<times> json) list"

text \<open>The exceptions the rendering code can raise on a document of the wrong shape.\<close>

datatype pyerr = AttributeError | TypeError | ValueError | KeyError | OverflowError

text \<open>\<^verbatim>\<open>key in data\<close> and \<^verbatim>\<open>data.get(key, default)\<close> on the top-level dict.\<close>

definition has_key :: "pydict \<Rightarrow> string \<Rightarrow> bool" where
  "has_key d k = (map_of d k \<noteq> None)"

definition dict_get :: "pydict \<Rightarrow> string \<Rightarrow> json \<Rightarrow> json" where
  "dict_get d k dflt = (case map_of d k of None \<Rightarrow> dflt | Some v \<Rightarrow> v)"

text \<open>
  The same operations on a value taken out of the document, which may be anything:
  \<^verbatim>\<open>v.get(k, default)\<close> exists on dicts only; \<^verbatim>\<open>k in v\<close> (with \<^verbatim>\<open>k\<close> a string) is key
  membership on a dict, element membership on a list, the substring test on a string and
  a \<^verbatim>\<open>TypeError\<close> on everything else; \<^verbatim>\<open>v[k]\<close> with a string \<^verbatim>\<open>k\<close> works on dicts only.
\<close>

definition py_get :: "json \<Rightarrow> string \<Rightarrow> json \<Rightarrow> pyerr + json" where
  "py_get v k dflt = (case v of JDict d \<Rightarrow> Inr (dict_get d k dflt) | _ \<Rightarrow> Inl AttributeError)"

definition py_in :: "string \<Rightarrow> json \<Rightarrow> pyerr + bool" where
  "py_in k v =
     (case v of
        JDict d \<Rightarrow> Inr (has_key d k)
      | JList xs \<Rightarrow> Inr (JStr k \<in> set xs)
      | JStr s \<Rightarrow> Inr (sublist k s)
      | _ \<Rightarrow> Inl TypeError)"

definition py_getitem :: "json \<Rightarrow> string \<Rightarrow> pyerr + json" where
  "py_getitem v k =
     (case v of
        JDict d \<Rightarrow> (case map_of d k of None \<Rightarrow> Inl KeyError | Some x \<Rightarrow> Inr x)
      | JList xs \<Rightarrow> Inl TypeError
      | JStr s \<Rightarrow> Inl TypeError
      | _ \<Rightarrow> Inl TypeError)"

section \<open>Band selection in \<^verbatim>\<open>main\<close>\<close>

definition ALL_BANDS :: "string list" where
  "ALL_BANDS = [''10m'', ''15m'', ''20m'', ''40m'']"

text \<open>
  Lines 262 to 267 of \<^verbatim>\<open>main\<close>: \<^verbatim>\<open>args.bands\<close> is the list of positional arguments
  (empty when none is given). \<^verbatim>\<open>Inl\<close> is the message printed before \<^verbatim>\<open>sys.exit(1)\<close>.
\<close>

definition main_bands :: "string list \<Rightarrow> string + string list" where
  "main_bands args_bands =
     (if args_bands \<noteq> [] then
        (let bands = filter (\<lambda>b. b \<in> set ALL_BANDS) args_bands in
         if bands = [] then Inl ''Error: No valid bands specified. Use: 10m, 15m, 20m, 40m''
         else Inr bands)
      else Inr ALL_BANDS)"

text \<open>
  The selection as the specification words it: the user's list intersected with the
  canonical set, iterated in canonical order.
\<close>

definition canonical_selection :: "string list \<Rightarrow> string list" where
  "canonical_selection args_bands = filter (\<lambda>b. b \<in> set args_bands) ALL_BANDS"

section \<open>\<^verbatim>\<open>check_alert\<close>\<close>

definition rating_order :: "string list" where
  "rating_order = [''VeryPoor'', ''Poor'', ''Fair'', ''Good'', ''Excellent'']"

text \<open>\<^verbatim>\<open>xs.index(x)\<close>: the first position of \<^verbatim>\<open>x\<close>, \<^verbatim>\<open>ValueError\<close> (here \<open>None\<close>) when absent.\<close>

fun list_index :: "'a list \<Rightarrow> 'a \<Rightarrow> nat option" where
  "list_index [] x = None"
| "list_index (y # ys) x =
     (if y = x then Some 0 else map_option Suc (list_index ys x))"

text \<open>The body of the \<^verbatim>\<open>for band in bands\<close> loop of \<^verbatim>\<open>check_alert\<close>, with its early return.\<close>

fun alert_loop :: "json \<Rightarrow> nat \<Rightarrow> string list \<Rightarrow> pyerr + bool" where
  "alert_loop band_data min_level [] = Inr False"
| "alert_loop band_data min_level (band # rest) =
     (case py_in band band_data of
        Inl e \<Rightarrow> Inl e
      | Inr False \<Rightarrow> alert_loop band_data min_level rest
      | Inr True \<Rightarrow>
          (case py_getitem band_data band of
             Inl e \<Rightarrow> Inl e
           | Inr d \<Rightarrow>
               (case py_get d ''rating'' (JStr ''VeryPoor'') of
                  Inl e \<Rightarrow> Inl e
                | Inr rating \<Rightarrow>
                    (case list_index (map JStr rating_order) rating of
                       None \<Rightarrow> alert_loop band_data min_level rest
                     | Some level \<Rightarrow>
                         if level \<ge> min_level then Inr True
                         else alert_loop band_data min_level rest))))"

definition check_alert :: "pydict \<Rightarrow> string list \<Rightarrow> string \<Rightarrow> pyerr + bool" where
  "check_alert data bands min_rating =
     (if min_rating \<notin> set rating_order then Inr False
      else
        (case list_index rating_order min_rating of
           None \<Rightarrow> Inl ValueError
         | Some min_level \<Rightarrow> alert_loop (dict_get data ''bands'' (JDict [])) min_level bands))"

text \<open>
  The alert condition as the specification words it. A band is requested and present
  when it is in the list and a key of the document's \<^verbatim>\<open>bands\<close> mapping; its rating is the
  reading's \<^verbatim>\<open>rating\<close>, \<^verbatim>\<open>VeryPoor\<close> when the reading has none; the position of a rating in
  the scale is undefined for anything but the five names.
\<close>

definition present_reading :: "pydict \<Rightarrow> string \<Rightarrow> pydict option" where
  "present_reading data band =
     (case map_of data ''bands'' of
        Some (JDict bd) \<Rightarrow> (case map_of bd band of Some (JDict d) \<Rightarrow> Some d | _ \<Rightarrow> None)
      | _ \<Rightarrow> None)"

definition scale_position :: "json \<Rightarrow> nat option" where
  "scale_position r =
     (if r = JStr ''VeryPoor'' then Some 0
      else if r = JStr ''Poor'' then Some 1
      else if r = JStr ''Fair'' then Some 2
      else if r = JStr ''Good'' then Some 3
      else if r = JStr ''Excellent'' then Some 4
      else None)"

definition band_reaches :: "pydict \<Rightarrow> string \<Rightarrow> string \<Rightarrow> bool" where
  "band_reaches data R band =
     (case present_reading data band of
        None \<Rightarrow> False
      | Some d \<Rightarrow>
          (case (scale_position (dict_get d ''rating'' (JStr ''VeryPoor'')), scale_position (JStr R)) of
             (Some k, Some m) \<Rightarrow> m \<le> k
           | _ \<Rightarrow> False))"

definition some_band_reaches :: "pydict \<Rightarrow> string list \<Rightarrow> string \<Rightarrow> bool" where
  "some_band_reaches data bands R = list_ex (band_reaches data R) bands"

text \<open>
  The shape the data model gives the document: \<^verbatim>\<open>bands\<close>, when there, is a mapping, and
  the reading of every requested band in it is a record.
\<close>

definition readings_are_records :: "pydict \<Rightarrow> string list \<Rightarrow> bool" where
  "readings_are_records data bands =
     (case map_of data ''bands'' of
        None \<Rightarrow> True
      | Some (JDict bd) \<Rightarrow>
          list_all (\<lambda>band. case map_of bd band of None \<Rightarrow> True | Some (JDict d) \<Rightarrow> True | Some _ \<Rightarrow> False) bands
      | Some _ \<Rightarrow> False)"

section \<open>Python values as text\<close>

text \<open>
  Three library results are left to the runtime, and every theorem below holds whatever
  they are: \<^verbatim>\<open>repr\<close> of a float, a list or a dict (the shortest round-trip decimal of a
  double, and the quoting of nested strings);
  \<^verbatim>\<open>datetime.fromisoformat(s).strftime('%Y-%m-%d %H:%M')\<close>, \<open>None\<close> when it raises (the
  accepted syntax differs between CPython versions); and \<^verbatim>\<open>json.dumps(v, indent=2)\<close>.
\<close>

record runtime =
  py_repr :: "json \<Rightarrow> string"
  iso_minutes :: "string \<Rightarrow> string option"
  json_dumps :: "json \<Rightarrow> string"

definition and_then :: "'e + 'a \<Rightarrow> ('a \<Rightarrow> 'e + 'b) \<Rightarrow> 'e + 'b" where
  "and_then m f = (case m of Inl e \<Rightarrow> Inl e | Inr x \<Rightarrow> f x)"

fun digits10 :: "nat \<Rightarrow> string" where
  "digits10 n =
     (if n < 10 then [''0123456789'' ! n]
      else digits10 (n div 10) @ [''0123456789'' ! (n mod 10)])"

definition py_str_int :: "int \<Rightarrow> string" where
  "py_str_int i = (if i < 0 then ''-'' @ digits10 (nat (- i)) else digits10 (nat i))"

text \<open>\<^verbatim>\<open>str(v)\<close>, which an f-string applies to a field without a format specification.\<close>

definition py_str :: "runtime \<Rightarrow> json \<Rightarrow> string" where
  "py_str rt v =
     (case v of
        JStr s \<Rightarrow> s
      | JNull \<Rightarrow> ''None''
      | JBool b \<Rightarrow> (if b then ''True'' else ''False'')
      | JInt i \<Rightarrow> py_str_int i
      | _ \<Rightarrow> py_repr rt v)"

text \<open>Truth value of a document value, as \<^verbatim>\<open>if v\<close> and \<^verbatim>\<open>v and ...\<close> take it.\<close>

fun truthy :: "json \<Rightarrow> bool" where
  "truthy JNull = False"
| "truthy (JBool b) = b"
| "truthy (JInt i) = (i \<noteq> 0)"
| "truthy (JFloat q) = (q \<noteq> 0)"
| "truthy (JStr s) = (s \<noteq> [])"
| "truthy (JList xs) = (xs \<noteq> [])"
| "truthy (JDict d) = (d \<noteq> [])"

text \<open>
  The numbers of Python: \<^verbatim>\<open>bool\<close> is a subtype of \<^verbatim>\<open>int\<close>. Ordering a number against an
  integer constant is exact; ordering anything else against it raises \<^verbatim>\<open>TypeError\<close>.
\<close>

fun num_value :: "json \<Rightarrow> rat option" where
  "num_value (JBool b) = Some (if b then 1 else 0)"
| "num_value (JInt i) = Some (of_int i)"
| "num_value (JFloat q) = Some q"
| "num_value v = None"

definition py_gt :: "json \<Rightarrow> int \<Rightarrow> pyerr + bool" where
  "py_gt v n = (case num_value v of None \<Rightarrow> Inl TypeError | Some q \<Rightarrow> Inr (q > of_int n))"

definition py_ge :: "json \<Rightarrow> int \<Rightarrow> pyerr + bool" where
  "py_ge v n = (case num_value v of None \<Rightarrow> Inl TypeError | Some q \<Rightarrow> Inr (q \<ge> of_int n))"

text \<open>
  The format specification \<^verbatim>\<open>.Nf\<close>. An \<^verbatim>\<open>int\<close> (or \<^verbatim>\<open>bool\<close>) is first converted to the
  nearest double, ties to even, with \<^verbatim>\<open>OverflowError\<close> from \<open>2 ^ 1024\<close> on; the double is
  then printed with \<open>N\<close> decimals, correctly rounded from its exact value, ties to even,
  the sign being that of the value. A string raises \<^verbatim>\<open>ValueError\<close>, \<^verbatim>\<open>None\<close>, a list or a
  dict \<^verbatim>\<open>TypeError\<close>.
\<close>

fun bit_length :: "nat \<Rightarrow> nat" where
  "bit_length n = (if n = 0 then 0 else Suc (bit_length (n div 2)))"

definition float_of_int :: "int \<Rightarrow> pyerr + rat" where
  "float_of_int i =
     (let a = nat \<bar>i\<bar>; n = bit_length a in
      if n \<le> 53 then Inr (of_int i)
      else
        (let e = n - 53;
             m = a div 2 ^ e;
             r = a mod 2 ^ e;
             h = 2 ^ (e - 1);
             m' = (if r > h \<or> (r = h \<and> odd m) then m + 1 else m);
             v = m' * 2 ^ e
         in if v \<ge> 2 ^ 1024 then Inl OverflowError
            else Inr (if i < 0 then - of_nat v else of_nat v)))"

definition round_half_even :: "rat \<Rightarrow> int" where
  "round_half_even x =
     (let f = \<lfloor>x\<rfloor>; d = x - of_int f in
      if d < 1 / 2 then f
      else if d > 1 / 2 then f + 1
      else if even f then f else f + 1)"

definition zero_pad :: "nat \<Rightarrow> string \<Rightarrow> string" where
  "zero_pad p s = replicate (p - length s) (CHR ''0'') @ s"

definition fixed :: "nat \<Rightarrow> rat \<Rightarrow> string" where
  "fixed p q =
     (let n = nat (round_half_even (\<bar>q\<bar> * 10 ^ p));
          ip = n div 10 ^ p;
          fp = n mod 10 ^ p
      in (if q < 0 then ''-'' else []) @ digits10 ip @
         (if p = 0 then [] else ''.'' @ zero_pad p (digits10 fp)))"

definition format_f :: "nat \<Rightarrow> json \<Rightarrow> pyerr + string" where
  "format_f p v =
     (case v of
        JInt i \<Rightarrow> and_then (float_of_int i) (\<lambda>q. Inr (fixed p q))
      | JBool b \<Rightarrow> Inr (fixed p (if b then 1 else 0))
      | JFloat q \<Rightarrow> Inr (fixed p q)
      | JStr s \<Rightarrow> Inl ValueError
      | _ \<Rightarrow> Inl TypeError)"

text \<open>
  \<^verbatim>\<open>len\<close> counts code points: the bytes that are not UTF-8 continuation bytes. The
  alignment \<^verbatim>\<open><N\<close> pads with spaces on the right up to \<open>N\<close> code points.
\<close>

definition continuation :: "char \<Rightarrow> bool" where
  "continuation c = (let n = (of_char c :: nat) in 128 \<le> n \<and> n < 192)"

definition py_len :: "string \<Rightarrow> nat" where
  "py_len s = length (filter (\<lambda>c. \<not> continuation c) s)"

definition ljust :: "nat \<Rightarrow> string \<Rightarrow> string" where
  "ljust n s = s @ replicate (n - py_len s) (CHR '' '')"

text \<open>\<^verbatim>\<open>sep.join(xs)\<close>.\<close>

fun join :: "string \<Rightarrow> string list \<Rightarrow> string" where
  "join sep [] = []"
| "join sep [x] = x"
| "join sep (x # y # ys) = x @ sep @ join sep (y # ys)"

section \<open>\<^verbatim>\<open>format_standard\<close>\<close>

text \<open>
  The glyphs of the source, as UTF-8: the rating symbols U+1F535, U+1F7E2, U+1F7E0,
  U+1F534 and U+26AB, the arrow U+2B06 of the peak indicator, the warning sign
  U+26A0 U+FE0F, the arrow U+2192 and the box-drawing characters U+2550 and U+2500.
\<close>

definition SYMBOLS :: "(string \<times> string) list" where
  "SYMBOLS =
     [(''Excellent'', [CHR 0xF0, CHR 0x9F, CHR 0x94, CHR 0xB5]),
      (''Good'', [CHR 0xF0, CHR 0x9F, CHR 0x9F, CHR 0xA2]),
      (''Fair'', [CHR 0xF0, CHR 0x9F, CHR 0x9F, CHR 0xA0]),
      (''Poor'', [CHR 0xF0, CHR 0x9F, CHR 0x94, CHR 0xB4]),
      (''VeryPoor'', [CHR 0xE2, CHR 0x9A, CHR 0xAB])]"

definition SYMBOLS_ASCII :: "(string \<times> string) list" where
  "SYMBOLS_ASCII =
     [(''Excellent'', ''[++++]''),
      (''Good'', ''[+++ ]''),
      (''Fair'', ''[++  ]''),
      (''Poor'', ''[+   ]''),
      (''VeryPoor'', ''[    ]'')]"

definition up_arrow :: string where
  "up_arrow = [CHR 0xE2, CHR 0xAC, CHR 0x86]"

definition warning_sign :: string where
  "warning_sign = [CHR 0xE2, CHR 0x9A, CHR 0xA0, CHR 0xEF, CHR 0xB8, CHR 0x8F]"

definition right_arrow :: string where
  "right_arrow = [CHR 0xE2, CHR 0x86, CHR 0x92]"

definition banner :: string where
  "banner = concat (replicate 55 [CHR 0xE2, CHR 0x95, CHR 0x90])"

definition table_rule :: string where
  "table_rule = ''  '' @ concat (replicate 48 [CHR 0xE2, CHR 0x94, CHR 0x80])"

definition table_header :: string where
  "table_header =
     ''  '' @ ljust 6 ''Band'' @ '' '' @ ljust 8 ''Now'' @ '' '' @ ljust 18 ''Rating'' @ '' '' @
     ljust 12 ''Tomorrow''"

text \<open>
  \<^verbatim>\<open>symbols.get(rating, "?")\<close>: a list or a dict is unhashable and raises \<^verbatim>\<open>TypeError\<close>;
  any other value that is not one of the five keys gives the default.
\<close>

definition symbol_for :: "(string \<times> string) list \<Rightarrow> json \<Rightarrow> pyerr + string" where
  "symbol_for symbols rating =
     (case rating of
        JStr s \<Rightarrow> Inr (case map_of symbols s of None \<Rightarrow> ''?'' | Some g \<Rightarrow> g)
      | JList xs \<Rightarrow> Inl TypeError
      | JDict d \<Rightarrow> Inl TypeError
      | _ \<Rightarrow> Inr ''?'')"

text \<open>\<^verbatim>\<open>vs_typical and vs_typical > 20\<close>, taken as a condition.\<close>

definition is_peak :: "json \<Rightarrow> pyerr + bool" where
  "is_peak vs_typical = (if truthy vs_typical then py_gt vs_typical 20 else Inr False)"

text \<open>Lines 100 to 106: the bare \<^verbatim>\<open>except\<close> swallows whatever the \<^verbatim>\<open>try\<close> block raises.\<close>

definition replace_Z :: "string \<Rightarrow> string" where
  "replace_Z s = concat (map (\<lambda>c. if c = CHR ''Z'' then ''+00:00'' else [c]) s)"

definition timestamp_lines :: "runtime \<Rightarrow> pydict \<Rightarrow> string list" where
  "timestamp_lines rt data =
     (if has_key data ''updated'' then
        (case dict_get data ''updated'' JNull of
           JStr s \<Rightarrow>
             (case iso_minutes rt (replace_Z s) of
                Some ts \<Rightarrow> [''  Updated: '' @ ts @ '' UTC'']
              | None \<Rightarrow> [])
         | _ \<Rightarrow> [])
      else [])"

text \<open>Lines 117 to 134: the row of one band whose reading is \<open>d\<close>.\<close>

definition band_row :: "runtime \<Rightarrow> bool \<Rightarrow> string \<Rightarrow> json \<Rightarrow> pyerr + string" where
  "band_row rt use_ascii band d =
     and_then (py_get d ''index'' (JInt 0)) (\<lambda>idx.
     and_then (py_get d ''rating'' (JStr ''?'')) (\<lambda>rating.
     and_then (symbol_for (if use_ascii then SYMBOLS_ASCII else SYMBOLS) rating) (\<lambda>symbol.
     and_then (py_get d ''forecast'' (JInt 0)) (\<lambda>fcst.
     and_then (py_get d ''forecast_rating'' (JStr ''?'')) (\<lambda>fcst_rating.
     and_then (py_get d ''vs_typical'' JNull) (\<lambda>vs_typical.
     and_then (is_peak vs_typical) (\<lambda>peak.
       (let rating_str =
              (if peak then
                 (if use_ascii
                  then symbol @ '' '' @ py_str rt rating @ '' +'' @ py_str rt vs_typical @ ''%''
                  else symbol @ '' '' @ py_str rt rating @ '' '' @ up_arrow @ ''+'' @
                       py_str rt vs_typical @ ''%'')
               else symbol @ '' '' @ py_str rt rating)
        in and_then (format_f 1 idx) (\<lambda>idx_text.
           and_then (format_f 1 fcst) (\<lambda>fcst_text.
             Inr (''  '' @ ljust 6 band @ '' '' @ ljust 8 idx_text @ '' '' @ ljust 18 rating_str @
                  '' '' @ fcst_text @ '' ('' @ py_str rt fcst_rating @ '')'')))))))))))"

text \<open>Lines 115 to 134: the loop over the requested bands.\<close>

fun band_rows :: "runtime \<Rightarrow> bool \<Rightarrow> json \<Rightarrow> string list \<Rightarrow> pyerr + string list" where
  "band_rows rt use_ascii band_data [] = Inr []"
| "band_rows rt use_ascii band_data (band # rest) =
     (case py_in band band_data of
        Inl e \<Rightarrow> Inl e
      | Inr False \<Rightarrow> band_rows rt use_ascii band_data rest
      | Inr True \<Rightarrow>
          (case py_getitem band_data band of
             Inl e \<Rightarrow> Inl e
           | Inr d \<Rightarrow>
               (case band_row rt use_ascii band d of
                  Inl e \<Rightarrow> Inl e
                | Inr line \<Rightarrow>
                    (case band_rows rt use_ascii band_data rest of
                       Inl e \<Rightarrow> Inl e
                     | Inr others \<Rightarrow> Inr (line # others)))))"

text \<open>Lines 139 to 141.\<close>

definition solar_line :: "string \<Rightarrow> string \<Rightarrow> string" where
  "solar_line sfi_text kp_text = ''  Solar: SFI '' @ sfi_text @ '' | Kp '' @ kp_text"

definition solar_lines :: "pydict \<Rightarrow> pyerr + string list" where
  "solar_lines data =
     (let solar = dict_get data ''solar'' (JDict []) in
      and_then (py_get solar ''sfi'' JNull) (\<lambda>sfi.
        if truthy sfi then
          and_then (py_get solar ''kp'' JNull) (\<lambda>kp.
            if truthy kp then
              and_then (py_getitem solar ''sfi'') (\<lambda>sfi_value.
              and_then (format_f 0 sfi_value) (\<lambda>sfi_text.
              and_then (py_getitem solar ''kp'') (\<lambda>kp_value.
              and_then (format_f 1 kp_value) (\<lambda>kp_text.
                Inr [solar_line sfi_text kp_text]))))
            else Inr [])
        else Inr []))"

text \<open>
  Lines 144 to 154. The line of a probability from 50 on carries the warning mark
  (\<^verbatim>\<open>[!]\<close> in ASCII mode); the line of a probability from 30 on carries none.
\<close>

definition storm_warning_line :: "bool \<Rightarrow> string \<Rightarrow> string \<Rightarrow> string" where
  "storm_warning_line use_ascii prob_text kp_text =
     (if use_ascii
      then ''  [!] Storm: '' @ prob_text @ ''% probability -> Kp '' @ kp_text
      else ''  '' @ warning_sign @ ''  Storm: '' @ prob_text @ ''% probability '' @
           right_arrow @ '' Kp '' @ kp_text)"

definition storm_plain_line :: "string \<Rightarrow> string \<Rightarrow> string" where
  "storm_plain_line prob_text kp_text =
     ''  Storm: '' @ prob_text @ ''% probability '' @ right_arrow @ '' Kp '' @ kp_text"

definition storm_lines :: "bool \<Rightarrow> pydict \<Rightarrow> pyerr + string list" where
  "storm_lines use_ascii data =
     (let storm = dict_get data ''storm'' JNull in
      if truthy storm then
        and_then (py_get storm ''probability'' JNull) (\<lambda>probability.
          if probability \<noteq> JNull then
            and_then (py_getitem storm ''probability'') (\<lambda>prob.
            and_then (py_get storm ''predicted_kp'' (JInt 0)) (\<lambda>kp.
            and_then (py_ge prob 50) (\<lambda>high.
              if high then
                and_then (format_f 0 prob) (\<lambda>prob_text.
                and_then (format_f 1 kp) (\<lambda>kp_text.
                  Inr [storm_warning_line use_ascii prob_text kp_text]))
              else
                and_then (py_ge prob 30) (\<lambda>medium.
                  if medium then
                    and_then (format_f 0 prob) (\<lambda>prob_text.
                    and_then (format_f 1 kp) (\<lambda>kp_text.
                      Inr [storm_plain_line prob_text kp_text]))
                  else Inr []))))
          else Inr [])
      else Inr [])"

text \<open>Lines 157 to 163.\<close>

definition source_line :: "pydict \<Rightarrow> pyerr + string" where
  "source_line data =
     (case dict_get data ''source'' (JStr ''wspr.hb9vqq.ch'') of
        JStr source \<Rightarrow>
          (let shown =
                 (if prefix ''https://'' source then drop 8 source
                  else if prefix ''http://'' source then drop 7 source
                  else source)
           in Inr (''  Source: '' @ shown @ '' | 73 de HB9VQQ''))
      | _ \<Rightarrow> Inl AttributeError)"

text \<open>
  The list \<^verbatim>\<open>lines\<close> when the function returns, and the function itself. The lines up to
  the table rule cannot raise; the later sections are evaluated in the order of the
  source, so the first exception is the one raised.
\<close>

definition head_lines :: "runtime \<Rightarrow> pydict \<Rightarrow> string list" where
  "head_lines rt data =
     [[], banner, ''  HF DX INDEX - Current Conditions'', banner] @ timestamp_lines rt data @
     [[], table_header, table_rule]"

definition standard_lines :: "runtime \<Rightarrow> pydict \<Rightarrow> string list \<Rightarrow> bool \<Rightarrow> pyerr + string list" where
  "standard_lines rt data bands use_ascii =
     and_then (band_rows rt use_ascii (dict_get data ''bands'' (JDict [])) bands) (\<lambda>rows.
     and_then (solar_lines data) (\<lambda>solar.
     and_then (storm_lines use_ascii data) (\<lambda>storm.
     and_then (source_line data) (\<lambda>source.
       Inr (head_lines rt data @ rows @ [[]] @ solar @ storm @ [banner, source, []])))))"

definition format_standard :: "runtime \<Rightarrow> pydict \<Rightarrow> string list \<Rightarrow> bool \<Rightarrow> pyerr + string" where
  "format_standard rt data bands use_ascii =
     (if has_key data ''error'' then Inr (''Error: '' @ py_str rt (dict_get data ''error'' JNull))
      else and_then (standard_lines rt data bands use_ascii) (\<lambda>lines. Inr (join [CHR 0x0A] lines)))"

section \<open>\<^verbatim>\<open>format_compact\<close>\<close>

definition compact_part :: "runtime \<Rightarrow> string \<Rightarrow> json \<Rightarrow> pyerr + string" where
  "compact_part rt band d =
     and_then (py_get d ''index'' (JInt 0)) (\<lambda>idx.
     and_then (py_get d ''rating'' (JStr ''?'')) (\<lambda>rating.
     and_then (py_get d ''vs_typical'' JNull) (\<lambda>vs_typical.
     and_then (is_peak vs_typical) (\<lambda>peak.
     and_then (format_f 0 idx) (\<lambda>idx_text.
       if peak
       then Inr (band @ '':'' @ py_str rt rating @ ''('' @ idx_text @ '')'' @ up_arrow @
                 py_str rt vs_typical @ ''%'')
       else Inr (band @ '':'' @ py_str rt rating @ ''('' @ idx_text @ '')''))))))"

fun compact_parts :: "runtime \<Rightarrow> json \<Rightarrow> string list \<Rightarrow> pyerr + string list" where
  "compact_parts rt band_data [] = Inr []"
| "compact_parts rt band_data (band # rest) =
     (case py_in band band_data of
        Inl e \<Rightarrow> Inl e
      | Inr False \<Rightarrow> compact_parts rt band_data rest
      | Inr True \<Rightarrow>
          (case py_getitem band_data band of
             Inl e \<Rightarrow> Inl e
           | Inr d \<Rightarrow>
               (case compact_part rt band d of
                  Inl e \<Rightarrow> Inl e
                | Inr part \<Rightarrow>
                    (case compact_parts rt band_data rest of
                       Inl e \<Rightarrow> Inl e
                     | Inr others \<Rightarrow> Inr (part # others)))))"

definition format_compact :: "runtime \<Rightarrow> pydict \<Rightarrow> string list \<Rightarrow> pyerr + string" where
  "format_compact rt data bands =
     (if has_key data ''error'' then Inr (''Error: '' @ py_str rt (dict_get data ''error'' JNull))
      else and_then (compact_parts rt (dict_get data ''bands'' (JDict [])) bands)
             (\<lambda>parts. Inr (join '' | '' parts)))"

section \<open>\<^verbatim>\<open>format_json\<close>\<close>

text \<open>\<^verbatim>\<open>d[k] = v\<close>: an existing key keeps its place, a new one goes last.\<close>

fun dict_store :: "pydict \<Rightarrow> string \<Rightarrow> json \<Rightarrow> pydict" where
  "dict_store [] k v = [(k, v)]"
| "dict_store ((k', v') # rest) k v =
     (if k' = k then (k, v) # rest else (k', v') # dict_store rest k v)"

text \<open>
  The dict comprehension of line 197, \<open>acc\<close> being the dict built so far: for each \<^verbatim>\<open>b\<close>
  the condition \<^verbatim>\<open>b in data.get("bands", {})\<close> comes first, then the value
  \<^verbatim>\<open>data.get("bands", {}).get(b)\<close>.
\<close>

fun bands_comprehension :: "pydict \<Rightarrow> pydict \<Rightarrow> string list \<Rightarrow> pyerr + pydict" where
  "bands_comprehension data acc [] = Inr acc"
| "bands_comprehension data acc (b # rest) =
     (case py_in b (dict_get data ''bands'' (JDict [])) of
        Inl e \<Rightarrow> Inl e
      | Inr False \<Rightarrow> bands_comprehension data acc rest
      | Inr True \<Rightarrow>
          (case py_get (dict_get data ''bands'' (JDict [])) b JNull of
             Inl e \<Rightarrow> Inl e
           | Inr v \<Rightarrow> bands_comprehension data (dict_store acc b v) rest))"

text \<open>Lines 195 to 201: the dict \<^verbatim>\<open>filtered\<close>.\<close>

definition filtered :: "pydict \<Rightarrow> string list \<Rightarrow> pyerr + pydict" where
  "filtered data bands =
     (let updated = dict_get data ''updated'' JNull in
      and_then (bands_comprehension data [] bands) (\<lambda>kept.
        (let solar = dict_get data ''solar'' JNull;
             reduced = [(''updated'', updated), (''bands'', JDict kept), (''solar'', solar)]
         in if has_key data ''storm''
            then and_then (py_getitem (JDict data) ''storm'') (\<lambda>storm.
                   Inr (dict_store reduced ''storm'' storm))
            else Inr reduced)))"

definition format_json :: "runtime \<Rightarrow> pydict \<Rightarrow> string list \<Rightarrow> pyerr + string" where
  "format_json rt data bands =
     (if bands \<noteq> ALL_BANDS
      then and_then (filtered data bands) (\<lambda>reduced. Inr (json_dumps rt (JDict reduced)))
      else Inr (json_dumps rt (JDict data)))"

section \<open>Notions of the specification\<close>


text \<open>
  The shape the data model gives \<^verbatim>\<open>bands\<close>: absent, or a mapping. \<open>bands_of\<close> is that
  mapping, empty when the field is absent.
\<close>

definition bands_is_mapping :: "pydict \<Rightarrow> bool" where
  "bands_is_mapping data =
     (case map_of data ''bands'' of None \<Rightarrow> True | Some (JDict bd) \<Rightarrow> True | Some _ \<Rightarrow> False)"

definition bands_of :: "pydict \<Rightarrow> pydict" where
  "bands_of data = (case map_of data ''bands'' of Some (JDict bd) \<Rightarrow> bd | _ \<Rightarrow> [])"

section \<open>Band selection\<close>

text \<open>
  Claim C1, as stated: the band list handed on is the user's list intersected with the
  canonical set, in canonical order. It fails: for the arguments \<^verbatim>\<open>40m 10m\<close> the list
  handed on is \<^verbatim>\<open>40m, 10m\<close>, not \<^verbatim>\<open>10m, 40m\<close>.
\<close>

theorem main_bands_canonical_order_counterexample:
  "main_bands [''40m'', ''10m''] \<noteq> Inr (canonical_selection [''40m'', ''10m''])"
  by (simp add: main_bands_def canonical_selection_def ALL_BANDS_def)

text \<open>
  Claim C1, amended: with no band given the list is the canonical one; otherwise it is
  the user's list with the entries outside the canonical set dropped, in the user's order
  and with the user's repetitions (a subsequence of the user's list whose elements are
  exactly the canonical bands the user named); and when no entry is canonical the program
  stops with an error instead.
\<close>

theorem main_bands_user_order:
  "(args_bands = [] \<longrightarrow> main_bands args_bands = Inr ALL_BANDS) \<and>
   (args_bands \<noteq> [] \<and> set args_bands \<inter> set ALL_BANDS \<noteq> {} \<longrightarrow>
      (\<exists>bands. main_bands args_bands = Inr bands \<and>
         bands = filter (\<lambda>b. b \<in> set ALL_BANDS) args_bands \<and>
         subseq bands args_bands \<and>
         set bands = set args_bands \<inter> set ALL_BANDS)) \<and>
   (args_bands \<noteq> [] \<and> set args_bands \<inter> set ALL_BANDS = {} \<longrightarrow>
      (\<exists>message. main_bands args_bands = Inl message))"
proof -
  have empty: "filter (\<lambda>b. b \<in> set ALL_BANDS) args_bands = [] \<longleftrightarrow>
               set args_bands \<inter> set ALL_BANDS = {}"
    by (auto simp: filter_empty_conv)
  show ?thesis
    by (auto simp: main_bands_def Let_def empty)
qed

theorem main_bands_user_order_witness:
  "[''40m'', ''xx'', ''10m'', ''40m''] \<noteq> [] \<and>
   set [''40m'', ''xx'', ''10m'', ''40m''] \<inter> set ALL_BANDS \<noteq> {} \<and>
   main_bands [''40m'', ''xx'', ''10m'', ''40m''] = Inr [''40m'', ''10m'', ''40m''] \<and>
   main_bands [] = Inr ALL_BANDS \<and>
   (\<exists>message. main_bands [''80m''] = Inl message)"
  using main_bands_user_order [of "[''40m'', ''xx'', ''10m'', ''40m'']"]
        main_bands_user_order [of "[]"]
        main_bands_user_order [of "[''80m'']"]
  by (simp add: ALL_BANDS_def)

section \<open>The alert evaluator\<close>

lemma list_index_ratings: "list_index (map JStr rating_order) r = scale_position r"
  by (auto simp: rating_order_def scale_position_def)

lemma list_index_rating_names: "list_index rating_order R = scale_position (JStr R)"
  by (auto simp: rating_order_def scale_position_def)

lemma alert_loop_records:
  assumes "list_all (\<lambda>band. case map_of bd band of None \<Rightarrow> True | Some (JDict d) \<Rightarrow> True | Some _ \<Rightarrow> False) bands"
  shows "alert_loop (JDict bd) m bands =
         Inr (list_ex (\<lambda>band. case map_of bd band of
                 Some (JDict d) \<Rightarrow>
                   (case scale_position (dict_get d ''rating'' (JStr ''VeryPoor'')) of
                      Some k \<Rightarrow> m \<le> k | None \<Rightarrow> False)
               | _ \<Rightarrow> False) bands)"
  using assms
proof (induction bands)
  case Nil
  then show ?case by simp
next
  case (Cons band rest)
  then have rest: "alert_loop (JDict bd) m rest =
         Inr (list_ex (\<lambda>band. case map_of bd band of
                 Some (JDict d) \<Rightarrow>
                   (case scale_position (dict_get d ''rating'' (JStr ''VeryPoor'')) of
                      Some k \<Rightarrow> m \<le> k | None \<Rightarrow> False)
               | _ \<Rightarrow> False) rest)"
    by simp
  show ?case
  proof (cases "map_of bd band")
    case None
    then show ?thesis using rest by (simp add: py_in_def has_key_def)
  next
    case (Some v)
    with Cons.prems obtain d where v: "v = JDict d" by (cases v) auto
    show ?thesis using Some v rest
      by (simp add: py_in_def has_key_def py_getitem_def py_get_def list_index_ratings
               split: option.splits)
  qed
qed

text \<open>
  Claim C2: for each of the five names \<open>R\<close> and every document of the data model's shape
  (\<^verbatim>\<open>bands\<close>, when there, a mapping whose requested readings are records),
  \<^verbatim>\<open>check_alert\<close> returns, and returns true exactly when some requested band present in
  the mapping has a rating at or above \<open>R\<close> in the scale, an absent rating counting as
  \<^verbatim>\<open>VeryPoor\<close> and a rating outside the five names never matching.
\<close>

theorem check_alert_threshold:
  assumes "R \<in> set rating_order" and "readings_are_records data bands"
  shows "check_alert data bands R = Inr (some_band_reaches data bands R)"
proof -
  from assms(1) obtain m where m: "scale_position (JStr R) = Some m"
    by (auto simp: rating_order_def scale_position_def)
  show ?thesis
  proof (cases "map_of data ''bands''")
    case None
    have "alert_loop (JDict []) m bands = Inr False"
      by (induction bands) (simp_all add: py_in_def has_key_def)
    moreover have "\<not> some_band_reaches data bands R"
      using None
      by (induction bands)
         (simp_all add: some_band_reaches_def band_reaches_def present_reading_def)
    ultimately show ?thesis
      using assms(1) None m by (simp add: check_alert_def list_index_rating_names dict_get_def)
  next
    case (Some v)
    with assms(2) obtain bd where v: "v = JDict bd"
      by (cases v) (auto simp: readings_are_records_def)
    have recs: "list_all (\<lambda>band. case map_of bd band of None \<Rightarrow> True | Some (JDict d) \<Rightarrow> True | Some _ \<Rightarrow> False) bands"
      using assms(2) Some v by (simp add: readings_are_records_def)
    have "some_band_reaches data bands R =
          list_ex (\<lambda>band. case map_of bd band of
                 Some (JDict d) \<Rightarrow>
                   (case scale_position (dict_get d ''rating'' (JStr ''VeryPoor'')) of
                      Some k \<Rightarrow> m \<le> k | None \<Rightarrow> False)
               | _ \<Rightarrow> False) bands"
      using Some v m
      by (induction bands)
         (auto simp: some_band_reaches_def band_reaches_def present_reading_def
               split: option.splits json.splits)
    then show ?thesis
      using assms(1) Some v m alert_loop_records[OF recs, of m]
      by (simp add: check_alert_def list_index_rating_names dict_get_def)
  qed
qed

theorem check_alert_threshold_witness:
  "''Good'' \<in> set rating_order \<and>
   readings_are_records
     [(''bands'', JDict [(''10m'', JDict [(''rating'', JStr ''Fair'')]),
                         (''20m'', JDict [(''rating'', JStr ''Excellent'')]),
                         (''40m'', JDict [(''index'', JInt 12)])])]
     [''10m'', ''15m'', ''20m''] \<and>
   check_alert
     [(''bands'', JDict [(''10m'', JDict [(''rating'', JStr ''Fair'')]),
                         (''20m'', JDict [(''rating'', JStr ''Excellent'')]),
                         (''40m'', JDict [(''index'', JInt 12)])])]
     [''10m'', ''15m'', ''20m''] ''Good'' = Inr True \<and>
   check_alert
     [(''bands'', JDict [(''10m'', JDict [(''rating'', JStr ''Fair'')]),
                         (''20m'', JDict [(''rating'', JStr ''Excellent'')]),
                         (''40m'', JDict [(''index'', JInt 12)])])]
     [''10m'', ''40m''] ''Good'' = Inr False \<and>
   check_alert
     [(''bands'', JDict [(''10m'', JDict [(''rating'', JStr ''Fair'')]),
                         (''20m'', JDict [(''rating'', JStr ''Excellent'')]),
                         (''40m'', JDict [(''index'', JInt 12)])])]
     [''40m''] ''VeryPoor'' = Inr True \<and>
   check_alert
     [(''bands'', JDict [(''10m'', JDict [(''rating'', JStr ''Fair'')]),
                         (''20m'', JDict [(''rating'', JStr ''Excellent'')]),
                         (''40m'', JDict [(''index'', JInt 12)])])]
     [''15m''] ''VeryPoor'' = Inr False"
  using check_alert_threshold [of "''Good''"
          "[(''bands'', JDict [(''10m'', JDict [(''rating'', JStr ''Fair'')]),
                         (''20m'', JDict [(''rating'', JStr ''Excellent'')]),
                         (''40m'', JDict [(''index'', JInt 12)])])]" "[''10m'', ''15m'', ''20m'']"]
        check_alert_threshold [of "''Good''"
          "[(''bands'', JDict [(''10m'', JDict [(''rating'', JStr ''Fair'')]),
                         (''20m'', JDict [(''rating'', JStr ''Excellent'')]),
                         (''40m'', JDict [(''index'', JInt 12)])])]" "[''10m'', ''40m'']"]
        check_alert_threshold [of "''VeryPoor''"
          "[(''bands'', JDict [(''10m'', JDict [(''rating'', JStr ''Fair'')]),
                         (''20m'', JDict [(''rating'', JStr ''Excellent'')]),
                         (''40m'', JDict [(''index'', JInt 12)])])]" "[''40m'']"]
        check_alert_threshold [of "''VeryPoor''"
          "[(''bands'', JDict [(''10m'', JDict [(''rating'', JStr ''Fair'')]),
                         (''20m'', JDict [(''rating'', JStr ''Excellent'')]),
                         (''40m'', JDict [(''index'', JInt 12)])])]" "[''15m'']"]
  by (simp add: rating_order_def readings_are_records_def some_band_reaches_def
        band_reaches_def present_reading_def scale_position_def dict_get_def)

text \<open>
  Claim C8: whatever the document and the band list, a threshold that is not one of the
  five names makes \<^verbatim>\<open>check_alert\<close> return false; nothing is raised.
\<close>

theorem check_alert_unknown_threshold:
  "t \<notin> set rating_order \<Longrightarrow> check_alert data bands t = Inr False"
  by (simp add: check_alert_def)

theorem check_alert_unknown_threshold_witness:
  "''NotARating'' \<notin> set rating_order \<and>
   check_alert [(''bands'', JNull)] [''10m''] ''NotARating'' = Inr False"
  using check_alert_unknown_threshold [of "''NotARating''" "[(''bands'', JNull)]" "[''10m'']"]
  by (simp add: rating_order_def)

section \<open>The standard and compact renderers\<close>

lemma and_then_Inl [simp]: "and_then (Inl e) f = Inl e"
  by (simp add: and_then_def)

lemma and_then_Inr [simp]: "and_then (Inr x) f = f x"
  by (simp add: and_then_def)


text \<open>
  Claim C5: when the document has an \<^verbatim>\<open>error\<close> field with the message \<open>m\<close>, the standard
  and the compact renderer both return exactly \<^verbatim>\<open>Error: m\<close>, whatever the band list, the
  symbol set and the other fields are.
\<close>

theorem error_message_only:
  assumes "map_of data ''error'' = Some (JStr m)"
  shows "format_standard rt data bands use_ascii = Inr (''Error: '' @ m) \<and>
         format_compact rt data bands = Inr (''Error: '' @ m)"
  using assms
  by (simp add: format_standard_def format_compact_def has_key_def dict_get_def py_str_def)

theorem error_message_only_witness:
  "\<forall>rt. map_of [(''bands'', JNull), (''error'', JStr ''service unavailable''), (''solar'', JInt 3)]
           ''error'' = Some (JStr ''service unavailable'') \<and>
        format_standard rt
          [(''bands'', JNull), (''error'', JStr ''service unavailable''), (''solar'', JInt 3)]
          [''10m'', ''20m''] False = Inr ''Error: service unavailable'' \<and>
        format_compact rt
          [(''bands'', JNull), (''error'', JStr ''service unavailable''), (''solar'', JInt 3)]
          [''10m'', ''20m''] = Inr ''Error: service unavailable''"
proof
  fix rt
  show "map_of [(''bands'', JNull), (''error'', JStr ''service unavailable''), (''solar'', JInt 3)]
           ''error'' = Some (JStr ''service unavailable'') \<and>
        format_standard rt
          [(''bands'', JNull), (''error'', JStr ''service unavailable''), (''solar'', JInt 3)]
          [''10m'', ''20m''] False = Inr ''Error: service unavailable'' \<and>
        format_compact rt
          [(''bands'', JNull), (''error'', JStr ''service unavailable''), (''solar'', JInt 3)]
          [''10m'', ''20m''] = Inr ''Error: service unavailable''"
    using error_message_only [of
        "[(''bands'', JNull), (''error'', JStr ''service unavailable''), (''solar'', JInt 3)]"
        "''service unavailable''" rt "[''10m'', ''20m'']" False]
    by simp
qed

lemma truthy_number: "num_value v = Some q \<Longrightarrow> truthy v \<longleftrightarrow> q \<noteq> 0"
  by (cases v) (auto split: if_splits)


lemma report_without_rows:
  "band_rows rt use_ascii (JDict []) bands = Inr []"
  by (induction bands) (simp_all add: py_in_def has_key_def)

text \<open>
  What the solar section does on numbers: the line is there when both values are
  non-zero, and only then.
\<close>

lemma solar_lines_numbers:
  assumes "map_of data ''solar'' = Some (JDict solar)"
    and "map_of solar ''sfi'' = Some sfi" and "num_value sfi = Some x"
    and "map_of solar ''kp'' = Some kp" and "num_value kp = Some y"
    and "format_f 0 sfi = Inr sfi_text" and "format_f 1 kp = Inr kp_text"
  shows "solar_lines data = Inr (if x \<noteq> 0 \<and> y \<noteq> 0 then [solar_line sfi_text kp_text] else [])"
  using assms
  by (simp add: solar_lines_def dict_get_def py_get_def py_getitem_def truthy_number Let_def)

text \<open>
  Claim C6 says the solar line is there exactly when \<^verbatim>\<open>sfi\<close> and \<^verbatim>\<open>kp\<close> are both present.
  The condition of line 140 tests their truth values instead, so a document whose
  \<^verbatim>\<open>kp\<close> is present and 0 (a quiet geomagnetic field) gets no solar line, while the same
  document with \<^verbatim>\<open>kp\<close> 1 gets it. The storm section, next to it, tests presence with
  \<^verbatim>\<open>is not None\<close>.
\<close>

theorem solar_line_lost_at_kp_zero:
  "\<forall>rt. format_standard rt [(''solar'', JDict [(''sfi'', JInt 150), (''kp'', JInt 0)])]
           ALL_BANDS True =
         Inr (join [CHR 0x0A]
                [[], banner, ''  HF DX INDEX - Current Conditions'', banner, [], table_header,
                 table_rule, [], banner, ''  Source: wspr.hb9vqq.ch | 73 de HB9VQQ'', []]) \<and>
        format_standard rt [(''solar'', JDict [(''sfi'', JInt 150), (''kp'', JInt 1)])]
           ALL_BANDS True =
         Inr (join [CHR 0x0A]
                [[], banner, ''  HF DX INDEX - Current Conditions'', banner, [], table_header,
                 table_rule, [], ''  Solar: SFI 150 | Kp 1.0'', banner,
                 ''  Source: wspr.hb9vqq.ch | 73 de HB9VQQ'', []])"
proof
  fix rt
  have zero: "solar_lines [(''solar'', JDict [(''sfi'', JInt 150), (''kp'', JInt 0)])] = Inr []"
    by (simp add: solar_lines_def dict_get_def py_get_def Let_def)
  have f150: "format_f 0 (JInt 150) = Inr ''150''"
    by (simp add: format_f_def float_of_int_def fixed_def round_half_even_def Let_def)
  have f1: "format_f 1 (JInt 1) = Inr ''1.0''"
    by (simp add: format_f_def float_of_int_def fixed_def round_half_even_def zero_pad_def Let_def)
  have one: "solar_lines [(''solar'', JDict [(''sfi'', JInt 150), (''kp'', JInt 1)])] =
             Inr [''  Solar: SFI 150 | Kp 1.0'']"
    using f150 f1
    by (simp add: solar_lines_def dict_get_def py_get_def py_getitem_def solar_line_def Let_def)
  show "format_standard rt [(''solar'', JDict [(''sfi'', JInt 150), (''kp'', JInt 0)])]
           ALL_BANDS True =
         Inr (join [CHR 0x0A]
                [[], banner, ''  HF DX INDEX - Current Conditions'', banner, [], table_header,
                 table_rule, [], banner, ''  Source: wspr.hb9vqq.ch | 73 de HB9VQQ'', []]) \<and>
        format_standard rt [(''solar'', JDict [(''sfi'', JInt 150), (''kp'', JInt 1)])]
           ALL_BANDS True =
         Inr (join [CHR 0x0A]
                [[], banner, ''  HF DX INDEX - Current Conditions'', banner, [], table_header,
                 table_rule, [], ''  Solar: SFI 150 | Kp 1.0'', banner,
                 ''  Source: wspr.hb9vqq.ch | 73 de HB9VQQ'', []])"
    by (simp add: format_standard_def standard_lines_def zero one dict_get_def has_key_def
          report_without_rows storm_lines_def source_line_def head_lines_def
          timestamp_lines_def Let_def)
qed
















section \<open>The JSON renderer\<close>

lemma map_of_dict_store: "map_of (dict_store d k v) = (map_of d)(k \<mapsto> v)"
  by (induction d) auto

lemma keys_dict_store: "fst ` set (dict_store d k v) = insert k (fst ` set d)"
proof -
  have "fst ` set (dict_store d k v) = dom (map_of (dict_store d k v))"
    by (simp add: dom_map_of_conv_image_fst)
  also have "\<dots> = insert k (dom (map_of d))"
    by (simp add: map_of_dict_store)
  also have "\<dots> = insert k (fst ` set d)"
    by (simp add: dom_map_of_conv_image_fst)
  finally show ?thesis .
qed

lemma distinct_dict_store:
  "distinct (map fst d) \<Longrightarrow> distinct (map fst (dict_store d k v))"
proof (induction d)
  case Nil
  then show ?case by simp
next
  case (Cons kv d)
  then show ?case using keys_dict_store [of d k v] by (cases kv) auto
qed

lemma dict_get_bands_mapping:
  "bands_is_mapping data \<Longrightarrow> dict_get data ''bands'' (JDict []) = JDict (bands_of data)"
  by (auto simp: bands_is_mapping_def bands_of_def dict_get_def split: option.splits json.splits)

lemma bands_comprehension_mapping:
  assumes "bands_is_mapping data" and "distinct (map fst acc)"
  shows "\<exists>kept. bands_comprehension data acc bands = Inr kept \<and> distinct (map fst kept) \<and>
           (\<forall>b. map_of kept b =
                  (if b \<in> set bands \<and> map_of (bands_of data) b \<noteq> None
                   then map_of (bands_of data) b else map_of acc b))"
  using assms(2)
proof (induction bands arbitrary: acc)
  case Nil
  then show ?case by simp
next
  case (Cons band rest)
  show ?case
  proof (cases "map_of (bands_of data) band")
    case None
    then have step: "bands_comprehension data acc (band # rest) = bands_comprehension data acc rest"
      by (simp add: dict_get_bands_mapping [OF assms(1)] py_in_def has_key_def)
    from Cons.IH [OF Cons.prems] obtain kept where
      "bands_comprehension data acc rest = Inr kept" "distinct (map fst kept)"
      "\<forall>b. map_of kept b =
            (if b \<in> set rest \<and> map_of (bands_of data) b \<noteq> None
             then map_of (bands_of data) b else map_of acc b)"
      by blast
    then show ?thesis using step None by auto
  next
    case (Some v)
    then have "py_get (JDict (bands_of data)) band JNull = Inr v"
      by (simp add: py_get_def dict_get_def)
    then have step: "bands_comprehension data acc (band # rest) =
                     bands_comprehension data (dict_store acc band v) rest"
      using Some by (simp add: dict_get_bands_mapping [OF assms(1)] py_in_def has_key_def)
    from Cons.IH [OF distinct_dict_store [OF Cons.prems]] obtain kept where
      "bands_comprehension data (dict_store acc band v) rest = Inr kept" "distinct (map fst kept)"
      "\<forall>b. map_of kept b =
            (if b \<in> set rest \<and> map_of (bands_of data) b \<noteq> None
             then map_of (bands_of data) b else map_of (dict_store acc band v) b)"
      by blast
    then show ?thesis using step Some by (auto simp: map_of_dict_store)
  qed
qed

lemma filtered_mapping:
  assumes "bands_is_mapping data"
  shows "\<exists>kept. distinct (map fst kept) \<and>
           (\<forall>b. map_of kept b = (if b \<in> set bands then map_of (bands_of data) b else None)) \<and>
           filtered data bands =
           Inr ([(''updated'', dict_get data ''updated'' JNull), (''bands'', JDict kept),
                 (''solar'', dict_get data ''solar'' JNull)] @
                (case map_of data ''storm'' of None \<Rightarrow> [] | Some storm \<Rightarrow> [(''storm'', storm)]))"
proof -
  from bands_comprehension_mapping [OF assms, of "[]" bands] obtain kept where
    kept: "bands_comprehension data [] bands = Inr kept" "distinct (map fst kept)"
    "\<forall>b. map_of kept b =
          (if b \<in> set bands \<and> map_of (bands_of data) b \<noteq> None
           then map_of (bands_of data) b else None)"
    by auto
  have "\<forall>b. map_of kept b = (if b \<in> set bands then map_of (bands_of data) b else None)"
    using kept(3) by auto
  moreover have "filtered data bands =
           Inr ([(''updated'', dict_get data ''updated'' JNull), (''bands'', JDict kept),
                 (''solar'', dict_get data ''solar'' JNull)] @
                (case map_of data ''storm'' of None \<Rightarrow> [] | Some storm \<Rightarrow> [(''storm'', storm)]))"
    using kept(1)
    by (auto simp: filtered_def Let_def has_key_def py_getitem_def split: option.splits)
  ultimately show ?thesis using kept(2) by blast
qed




text \<open>
  Claim C4: with a band list other than the canonical list (a strict subset of the
  canonical set in particular) and \<^verbatim>\<open>bands\<close> absent or a mapping, \<^verbatim>\<open>format_json\<close> returns
  the serialisation of an object whose \<^verbatim>\<open>bands\<close> is a mapping that binds exactly the
  requested bands the document's mapping binds, each to its reading there, and that has
  \<^verbatim>\<open>storm\<close> exactly when the document has it, with the document's value whatever it is.
\<close>

theorem format_json_reduced_bands_and_storm:
  assumes "bands \<noteq> ALL_BANDS" and "bands_is_mapping data"
  shows "\<exists>reduced kept.
           filtered data bands = Inr reduced \<and>
           format_json rt data bands = Inr (json_dumps rt (JDict reduced)) \<and>
           map_of reduced ''bands'' = Some (JDict kept) \<and>
           distinct (map fst kept) \<and>
           (\<forall>b. map_of kept b = (if b \<in> set bands then map_of (bands_of data) b else None)) \<and>
           has_key reduced ''storm'' = has_key data ''storm'' \<and>
           map_of reduced ''storm'' = map_of data ''storm''"
proof -
  from filtered_mapping [OF assms(2), of bands] obtain kept where
    kept: "distinct (map fst kept)"
      "\<forall>b. map_of kept b = (if b \<in> set bands then map_of (bands_of data) b else None)"
      "filtered data bands =
       Inr ([(''updated'', dict_get data ''updated'' JNull), (''bands'', JDict kept),
             (''solar'', dict_get data ''solar'' JNull)] @
            (case map_of data ''storm'' of None \<Rightarrow> [] | Some storm \<Rightarrow> [(''storm'', storm)]))"
    by blast
  define reduced where "reduced =
       [(''updated'', dict_get data ''updated'' JNull), (''bands'', JDict kept),
        (''solar'', dict_get data ''solar'' JNull)] @
       (case map_of data ''storm'' of None \<Rightarrow> [] | Some storm \<Rightarrow> [(''storm'', storm)])"
  have 1: "filtered data bands = Inr reduced"
    using kept(3) by (simp add: reduced_def)
  have 2: "format_json rt data bands = Inr (json_dumps rt (JDict reduced))"
    using assms(1) 1 by (simp add: format_json_def)
  have 3: "map_of reduced ''bands'' = Some (JDict kept)"
    by (simp add: reduced_def)
  have 4: "map_of reduced ''storm'' = map_of data ''storm''"
    by (simp add: reduced_def split: option.splits)
  have 5: "has_key reduced ''storm'' = has_key data ''storm''"
    by (simp add: has_key_def 4)
  show ?thesis
    using 1 2 3 4 5 kept(1) kept(2) by blast
qed

theorem format_json_reduced_bands_and_storm_witness:
  "\<forall>rt.
     [''20m'', ''15m''] \<noteq> ALL_BANDS \<and>
     bands_is_mapping
       [(''bands'', JDict [(''10m'', JDict [(''index'', JInt 42)]),
                           (''20m'', JDict [(''index'', JInt 61)]),
                           (''80m'', JDict [(''index'', JInt 7)])]),
        (''storm'', JNull), (''source'', JStr ''example.org'')] \<and>
     format_json rt
       [(''bands'', JDict [(''10m'', JDict [(''index'', JInt 42)]),
                           (''20m'', JDict [(''index'', JInt 61)]),
                           (''80m'', JDict [(''index'', JInt 7)])]),
        (''storm'', JNull), (''source'', JStr ''example.org'')]
       [''20m'', ''15m''] =
     Inr (json_dumps rt
            (JDict [(''updated'', JNull),
                    (''bands'', JDict [(''20m'', JDict [(''index'', JInt 61)])]),
                    (''solar'', JNull), (''storm'', JNull)]))"
proof
  fix rt
  have differs: "[''20m'', ''15m''] \<noteq> ALL_BANDS"
    by (simp add: ALL_BANDS_def)
  have mapping: "bands_is_mapping
       [(''bands'', JDict [(''10m'', JDict [(''index'', JInt 42)]),
                           (''20m'', JDict [(''index'', JInt 61)]),
                           (''80m'', JDict [(''index'', JInt 7)])]),
        (''storm'', JNull), (''source'', JStr ''example.org'')]"
    by (simp add: bands_is_mapping_def)
  have object: "filtered
       [(''bands'', JDict [(''10m'', JDict [(''index'', JInt 42)]),
                           (''20m'', JDict [(''index'', JInt 61)]),
                           (''80m'', JDict [(''index'', JInt 7)])]),
        (''storm'', JNull), (''source'', JStr ''example.org'')]
       [''20m'', ''15m''] =
     Inr [(''updated'', JNull), (''bands'', JDict [(''20m'', JDict [(''index'', JInt 61)])]),
          (''solar'', JNull), (''storm'', JNull)]"
    by (simp add: filtered_def dict_get_def py_in_def py_get_def py_getitem_def has_key_def
          Let_def)
  from format_json_reduced_bands_and_storm [OF differs mapping, of rt]
  have "format_json rt
       [(''bands'', JDict [(''10m'', JDict [(''index'', JInt 42)]),
                           (''20m'', JDict [(''index'', JInt 61)]),
                           (''80m'', JDict [(''index'', JInt 7)])]),
        (''storm'', JNull), (''source'', JStr ''example.org'')]
       [''20m'', ''15m''] =
     Inr (json_dumps rt
            (JDict [(''updated'', JNull),
                    (''bands'', JDict [(''20m'', JDict [(''index'', JInt 61)])]),
                    (''solar'', JNull), (''storm'', JNull)]))"
    unfolding object by auto
  with differs mapping show "[''20m'', ''15m''] \<noteq> ALL_BANDS \<and>
     bands_is_mapping
       [(''bands'', JDict [(''10m'', JDict [(''index'', JInt 42)]),
                           (''20m'', JDict [(''index'', JInt 61)]),
                           (''80m'', JDict [(''index'', JInt 7)])]),
        (''storm'', JNull), (''source'', JStr ''example.org'')] \<and>
     format_json rt
       [(''bands'', JDict [(''10m'', JDict [(''index'', JInt 42)]),
                           (''20m'', JDict [(''index'', JInt 61)]),
                           (''80m'', JDict [(''index'', JInt 7)])]),
        (''storm'', JNull), (''source'', JStr ''example.org'')]
       [''20m'', ''15m''] =
     Inr (json_dumps rt
            (JDict [(''updated'', JNull),
                    (''bands'', JDict [(''20m'', JDict [(''index'', JInt 61)])]),
                    (''solar'', JNull), (''storm'', JNull)]))"
    by blast
qed

text \<open>
  Claim C10: with a band list other than the canonical list and \<^verbatim>\<open>bands\<close> absent or a
  mapping, the object serialised has the keys \<^verbatim>\<open>updated\<close>, \<^verbatim>\<open>bands\<close>, \<^verbatim>\<open>solar\<close> and, when the
  document has it, \<^verbatim>\<open>storm\<close>, in that order and no other; \<^verbatim>\<open>updated\<close> and \<^verbatim>\<open>solar\<close> are
  bound to the document's values, and to \<^verbatim>\<open>null\<close> when the document has no such field.
\<close>

theorem format_json_reduced_updated_and_solar:
  assumes "bands \<noteq> ALL_BANDS" and "bands_is_mapping data"
  shows "\<exists>reduced.
           filtered data bands = Inr reduced \<and>
           format_json rt data bands = Inr (json_dumps rt (JDict reduced)) \<and>
           map fst reduced =
             [''updated'', ''bands'', ''solar''] @ (if has_key data ''storm'' then [''storm''] else []) \<and>
           map_of reduced ''updated'' =
             Some (case map_of data ''updated'' of None \<Rightarrow> JNull | Some v \<Rightarrow> v) \<and>
           map_of reduced ''solar'' =
             Some (case map_of data ''solar'' of None \<Rightarrow> JNull | Some v \<Rightarrow> v)"
proof -
  from filtered_mapping [OF assms(2), of bands] obtain kept where
    kept: "filtered data bands =
       Inr ([(''updated'', dict_get data ''updated'' JNull), (''bands'', JDict kept),
             (''solar'', dict_get data ''solar'' JNull)] @
            (case map_of data ''storm'' of None \<Rightarrow> [] | Some storm \<Rightarrow> [(''storm'', storm)]))"
    by blast
  define reduced where "reduced =
       [(''updated'', dict_get data ''updated'' JNull), (''bands'', JDict kept),
        (''solar'', dict_get data ''solar'' JNull)] @
       (case map_of data ''storm'' of None \<Rightarrow> [] | Some storm \<Rightarrow> [(''storm'', storm)])"
  have 1: "filtered data bands = Inr reduced"
    using kept by (simp add: reduced_def)
  have 2: "format_json rt data bands = Inr (json_dumps rt (JDict reduced))"
    using assms(1) 1 by (simp add: format_json_def)
  have 3: "map fst reduced =
             [''updated'', ''bands'', ''solar''] @ (if has_key data ''storm'' then [''storm''] else [])"
    by (simp add: reduced_def has_key_def split: option.splits)
  have 4: "map_of reduced ''updated'' =
             Some (case map_of data ''updated'' of None \<Rightarrow> JNull | Some v \<Rightarrow> v)"
    by (simp add: reduced_def dict_get_def)
  have 5: "map_of reduced ''solar'' =
             Some (case map_of data ''solar'' of None \<Rightarrow> JNull | Some v \<Rightarrow> v)"
    by (simp add: reduced_def dict_get_def)
  show ?thesis
    using 1 2 3 4 5 by blast
qed

theorem format_json_reduced_updated_and_solar_witness:
  "\<forall>rt.
     [''10m''] \<noteq> ALL_BANDS \<and>
     bands_is_mapping [(''bands'', JDict [(''10m'', JDict [(''index'', JInt 42)])])] \<and>
     \<not> has_key [(''bands'', JDict [(''10m'', JDict [(''index'', JInt 42)])])] ''updated'' \<and>
     \<not> has_key [(''bands'', JDict [(''10m'', JDict [(''index'', JInt 42)])])] ''solar'' \<and>
     format_json rt [(''bands'', JDict [(''10m'', JDict [(''index'', JInt 42)])])] [''10m''] =
     Inr (json_dumps rt
            (JDict [(''updated'', JNull),
                    (''bands'', JDict [(''10m'', JDict [(''index'', JInt 42)])]),
                    (''solar'', JNull)]))"
proof
  fix rt
  have differs: "[''10m''] \<noteq> ALL_BANDS"
    by (simp add: ALL_BANDS_def)
  have mapping: "bands_is_mapping [(''bands'', JDict [(''10m'', JDict [(''index'', JInt 42)])])]"
    by (simp add: bands_is_mapping_def)
  have object: "filtered [(''bands'', JDict [(''10m'', JDict [(''index'', JInt 42)])])] [''10m''] =
     Inr [(''updated'', JNull), (''bands'', JDict [(''10m'', JDict [(''index'', JInt 42)])]),
          (''solar'', JNull)]"
    by (simp add: filtered_def dict_get_def py_in_def py_get_def has_key_def Let_def)
  from format_json_reduced_updated_and_solar [OF differs mapping, of rt]
  have "format_json rt [(''bands'', JDict [(''10m'', JDict [(''index'', JInt 42)])])] [''10m''] =
     Inr (json_dumps rt
            (JDict [(''updated'', JNull),
                    (''bands'', JDict [(''10m'', JDict [(''index'', JInt 42)])]),
                    (''solar'', JNull)]))"
    unfolding object by auto
  with differs mapping show "[''10m''] \<noteq> ALL_BANDS \<and>
     bands_is_mapping [(''bands'', JDict [(''10m'', JDict [(''index'', JInt 42)])])] \<and>
     \<not> has_key [(''bands'', JDict [(''10m'', JDict [(''index'', JInt 42)])])] ''updated'' \<and>
     \<not> has_key [(''bands'', JDict [(''10m'', JDict [(''index'', JInt 42)])])] ''solar'' \<and>
     format_json rt [(''bands'', JDict [(''10m'', JDict [(''index'', JInt 42)])])] [''10m''] =
     Inr (json_dumps rt
            (JDict [(''updated'', JNull),
                    (''bands'', JDict [(''10m'', JDict [(''index'', JInt 42)])]),
                    (''solar'', JNull)]))"
    by (simp add: has_key_def)
qed

end
